theory Spec2Isabelle
  imports Complex_Main
begin

section \<open>Spot tracking and inpainting (blur\_spots.py)\<close>

text \<open>
  A shallow embedding of \<^verbatim>\<open>build_spot_templates\<close>, \<^verbatim>\<open>track_spot_on_frame\<close> and the
  frame loop of \<^verbatim>\<open>main\<close>.

  Conventions of the embedding.
  \<^item> Python integers are \<open>int\<close>; \<^verbatim>\<open>//\<close> is \<open>div\<close> (both round towards minus infinity).
  \<^item> The centre coordinates are stored by the source as \<^verbatim>\<open>float(n)\<close> of a Python
    integer \<open>n\<close> and read back through \<^verbatim>\<open>int(...)\<close> and \<^verbatim>\<open>int(round(...))\<close>. They are
    therefore always integer valued, and are modelled as \<open>int\<close>.
  \<^item> A numpy array is its shape together with an index function; slicing follows
    Python's rules, including the wrap-around of a negative bound.
  \<^item> The OpenCV routines are collaborators outside the repository. They are the fields
    of a record \<open>cvlib\<close>, a parameter of every function that calls them.
    \<^verbatim>\<open>cv2.matchTemplate\<close> may raise \<^verbatim>\<open>cv2.error\<close>: its field returns an option.
  \<^item> The darkening multiplies in float32: \<^verbatim>\<open>region\<close> is a float32 array and numpy
    converts the factor to float32 before it multiplies. A float32 value is a real
    number with a significand of 24 bits, and an operation rounds its exact result to
    the nearest such number, ties to even. The exponent range is left out: with a
    factor below 1 and of magnitude below \<open>2^128\<close> it cannot change the byte stored.
  \<^item> Of the lines that \<open>main\<close> prints, the model keeps one message per kind of line; the
    progress line printed every hundredth frame is left out.
\<close>

subsection \<open>Arrays and slices\<close>

record array2d =
  nrows :: nat
  ncols :: nat
  px :: "nat \<Rightarrow> nat \<Rightarrow> nat"

record array3d =
  rows3 :: nat
  cols3 :: nat
  px3 :: "nat \<Rightarrow> nat \<Rightarrow> nat \<Rightarrow> nat"

text \<open>
  Python's normalisation of one slice bound against an axis of length \<open>n\<close>
  (\<^verbatim>\<open>slice.indices\<close>, step 1): a negative bound counts from the end.
\<close>

definition slice_index :: "int \<Rightarrow> nat \<Rightarrow> nat" where
  "slice_index i n = (if i < 0 then nat (max 0 (i + int n)) else min (nat i) n)"

text \<open>First index and length of \<^verbatim>\<open>a[lo:hi]\<close> along an axis of length \<open>n\<close>.\<close>

definition slice_start :: "int \<Rightarrow> int \<Rightarrow> nat \<Rightarrow> nat" where
  "slice_start lo hi n = slice_index lo n"

definition slice_len :: "int \<Rightarrow> int \<Rightarrow> nat \<Rightarrow> nat" where
  "slice_len lo hi n = slice_index hi n - slice_index lo n"

text \<open>\<^verbatim>\<open>a[y1:y2, x1:x2]\<close>\<close>

definition slice2d :: "array2d \<Rightarrow> int \<Rightarrow> int \<Rightarrow> int \<Rightarrow> int \<Rightarrow> array2d" where
  "slice2d a y1 y2 x1 x2 =
     \<lparr> nrows = slice_len y1 y2 (nrows a),
       ncols = slice_len x1 x2 (ncols a),
       px = (\<lambda>i j. px a (slice_start y1 y2 (nrows a) + i) (slice_start x1 x2 (ncols a) + j)) \<rparr>"

text \<open>\<^verbatim>\<open>a.size\<close>\<close>

definition size2d :: "array2d \<Rightarrow> nat" where
  "size2d a = nrows a * ncols a"

subsection \<open>The OpenCV collaborators\<close>

datatype error = CvError

datatype inpaint_method = Telea | NS

record cvlib =
  preprocess :: "array3d \<Rightarrow> array2d"
    \<comment> \<open>\<^verbatim>\<open>preprocess_for_match(cv2.cvtColor(frame, COLOR_BGR2GRAY))\<close>\<close>
  matchTemplate :: "array2d \<Rightarrow> array2d \<Rightarrow> (real \<times> int \<times> int) option"
    \<comment> \<open>\<^verbatim>\<open>matchTemplate\<close> followed by \<^verbatim>\<open>minMaxLoc\<close>: \<open>(max_val, u, v)\<close>, or the call raises\<close>
  fill_circle :: "array2d \<Rightarrow> int \<Rightarrow> int \<Rightarrow> int \<Rightarrow> array2d"
    \<comment> \<open>\<^verbatim>\<open>cv2.circle(mask, (cx, cy), r, 255, thickness=-1)\<close>\<close>
  inpaint :: "array3d \<Rightarrow> array2d \<Rightarrow> real \<Rightarrow> inpaint_method \<Rightarrow> array3d"
  draw_circle :: "array3d \<Rightarrow> int \<Rightarrow> int \<Rightarrow> int \<Rightarrow> array3d"
    \<comment> \<open>\<^verbatim>\<open>cv2.circle(out, (cx, cy), r, (0, 0, 255), 2)\<close>\<close>

subsection \<open>Spot definitions and tracks\<close>

record spot_def =
  def_x :: int
  def_y :: int
  def_radius :: int

record spot =
  radius :: int
  template :: array2d
  templ_w :: int
  templ_h :: int
  origin_cx :: int
  origin_cy :: int
  last_cx :: int
  last_cy :: int
  alive :: bool

datatype message =
    WarnEmptyTemplate int int
  | ErrCannotOpen
  | ErrResolutionMismatch
  | ErrCannotReadReference
  | NothingToDo
  | Done

subsection \<open>build\_spot\_templates\<close>

definition margin :: int where
  "margin = 4"

text \<open>The four clipped bounds \<open>(x1, y1, x2, y2)\<close> of a definition's box.\<close>

definition template_box :: "spot_def \<Rightarrow> int \<Rightarrow> int \<Rightarrow> int \<times> int \<times> int \<times> int" where
  "template_box s width height =
     (let cx0 = def_x s; cy0 = def_y s; r = def_radius s;
          half_size = r + margin
      in (max 0 (cx0 - half_size), max 0 (cy0 - half_size),
          min width (cx0 + half_size), min height (cy0 + half_size)))"

text \<open>One iteration of the loop: the warning of a skipped definition, or its track.\<close>

definition build_one :: "array2d \<Rightarrow> spot_def \<Rightarrow> int \<Rightarrow> int \<Rightarrow> message + spot" where
  "build_one gray_ref_proc s width height =
     (case template_box s width height of (x1, y1, x2, y2) \<Rightarrow>
        let templ_proc = slice2d gray_ref_proc y1 y2 x1 x2
        in if size2d templ_proc = 0 then Inl (WarnEmptyTemplate (def_x s) (def_y s))
           else Inr \<lparr> radius = def_radius s,
                      template = templ_proc,
                      templ_w = int (ncols templ_proc),
                      templ_h = int (nrows templ_proc),
                      origin_cx = def_x s,
                      origin_cy = def_y s,
                      last_cx = def_x s,
                      last_cy = def_y s,
                      alive = True \<rparr>)"

text \<open>The loop over the definitions: the warnings printed and the tracks appended, in order.\<close>

fun build_loop :: "array2d \<Rightarrow> spot_def list \<Rightarrow> int \<Rightarrow> int \<Rightarrow> message list \<times> spot list" where
  "build_loop g [] width height = ([], [])"
| "build_loop g (s # ss) width height =
     (case build_loop g ss width height of (ws, ts) \<Rightarrow>
        (case build_one g s width height of
           Inl w \<Rightarrow> (w # ws, ts)
         | Inr t \<Rightarrow> (ws, t # ts)))"

definition build_spot_templates ::
  "cvlib \<Rightarrow> array3d \<Rightarrow> spot_def list \<Rightarrow> int \<Rightarrow> int \<Rightarrow> message list \<times> spot list" where
  "build_spot_templates cv ref_frame_bgr spots width height =
     build_loop (preprocess cv ref_frame_bgr) spots width height"

subsection \<open>track\_spot\_on\_frame\<close>

text \<open>The search region before clipping, \<open>(roi_x1, roi_y1, roi_x2, roi_y2)\<close>.\<close>

definition search_region :: "spot \<Rightarrow> int \<Rightarrow> int \<times> int \<times> int \<times> int" where
  "search_region sp max_shift =
     (let half_w = templ_w sp div 2; half_h = templ_h sp div 2
      in (last_cx sp - half_w - max_shift, last_cy sp - half_h - max_shift,
          last_cx sp + half_w + max_shift, last_cy sp + half_h + max_shift))"

text \<open>The bounds of the search region after clipping to the frame (the four \<^verbatim>\<open>max\<close>/\<^verbatim>\<open>min\<close>).\<close>

definition clipped_region :: "spot \<Rightarrow> int \<Rightarrow> int \<Rightarrow> int \<Rightarrow> int \<times> int \<times> int \<times> int" where
  "clipped_region sp width height max_shift =
     (case search_region sp max_shift of (roi_x1, roi_y1, roi_x2, roi_y2) \<Rightarrow>
        (max 0 roi_x1, max 0 roi_y1, min width roi_x2, min height roi_y2))"

text \<open>The clipped region, as the array the source slices out of the frame.\<close>

definition roi_of :: "spot \<Rightarrow> array2d \<Rightarrow> int \<Rightarrow> int \<Rightarrow> int \<Rightarrow> array2d" where
  "roi_of sp gray_frame_proc width height max_shift =
     (case search_region sp max_shift of (roi_x1, roi_y1, roi_x2, roi_y2) \<Rightarrow>
        slice2d gray_frame_proc (max 0 roi_y1) (min height roi_y2)
                                (max 0 roi_x1) (min width roi_x2))"

definition track_spot_on_frame ::
  "cvlib \<Rightarrow> spot \<Rightarrow> array2d \<Rightarrow> int \<Rightarrow> int \<Rightarrow> int \<Rightarrow> real \<Rightarrow> error + spot" where
  "track_spot_on_frame cv sp gray_frame_proc width height max_shift match_threshold =
     (if \<not> alive sp then Inr sp
      else
        let half_w = templ_w sp div 2;
            half_h = templ_h sp div 2;
            roi_x1 = max 0 (fst (search_region sp max_shift));
            roi_y1 = max 0 (fst (snd (search_region sp max_shift)));
            roi = roi_of sp gray_frame_proc width height max_shift
        in if int (nrows roi) < templ_h sp \<or> int (ncols roi) < templ_w sp then Inr sp
           else
             (case matchTemplate cv roi (template sp) of
                None \<Rightarrow> Inl CvError
              | Some (max_val, u, v) \<Rightarrow>
                  if max_val < match_threshold then Inr sp
                  else
                    let cx_new = max 0 (min (roi_x1 + u + half_w) (width - 1));
                        cy_new = max 0 (min (roi_y1 + v + half_h) (height - 1))
                    in Inr (sp\<lparr> last_cx := cx_new, last_cy := cy_new \<rparr>)))"

subsection \<open>The loop over the tracks of one frame\<close>

text \<open>
  The body of \<^verbatim>\<open>for spot in spot_templates\<close>. The source mutates the dictionaries of
  the list in place; \<^verbatim>\<open>build_spot_templates\<close> creates one fresh dictionary per
  definition, so no two entries share state and the loop is a recursion over the list
  that returns the updated entries in order. The accumulators are the mask, the count
  \<^verbatim>\<open>active_spots\<close> and the list \<^verbatim>\<open>debug_circles\<close>. An exception of the tracker leaves the loop.
\<close>

type_synonym circle = "int \<times> int \<times> int"

type_synonym frame_acc = "spot list \<times> array2d \<times> nat \<times> circle list"

definition keep_spot :: "spot \<Rightarrow> error + frame_acc \<Rightarrow> error + frame_acc" where
  "keep_spot sp r =
     (case r of Inl e \<Rightarrow> Inl e | Inr (ts, m, n, cs) \<Rightarrow> Inr (sp # ts, m, n, cs))"

fun track_spots ::
  "cvlib \<Rightarrow> array2d \<Rightarrow> int \<Rightarrow> int \<Rightarrow> int \<Rightarrow> real \<Rightarrow> bool \<Rightarrow>
   spot list \<Rightarrow> array2d \<Rightarrow> nat \<Rightarrow> circle list \<Rightarrow> error + frame_acc" where
  "track_spots cv gray_proc width height max_shift match_threshold debug [] msk active cs =
     Inr ([], msk, active, cs)"
| "track_spots cv gray_proc width height max_shift match_threshold debug (sp # sps) msk active cs =
     (if \<not> alive sp
      then keep_spot sp
             (track_spots cv gray_proc width height max_shift match_threshold debug sps msk active cs)
      else
        (case track_spot_on_frame cv sp gray_proc width height max_shift match_threshold of
           Inl e \<Rightarrow> Inl e
         | Inr sp' \<Rightarrow>
             if \<not> alive sp'
             then keep_spot sp'
                    (track_spots cv gray_proc width height max_shift match_threshold debug sps msk active cs)
             else
               let cx = last_cx sp'; cy = last_cy sp'; r = radius sp';
                   msk' = fill_circle cv msk cx cy r
               in keep_spot sp'
                    (track_spots cv gray_proc width height max_shift match_threshold debug sps
                       msk' (active + 1) (if debug then cs @ [(cx, cy, r)] else cs))))"

subsection \<open>Inpainting, darkening and the debug overlay\<close>

text \<open>\<^verbatim>\<open>np.zeros((height, width), dtype=np.uint8)\<close>\<close>

definition zeros :: "int \<Rightarrow> int \<Rightarrow> array2d" where
  "zeros height width = \<lparr> nrows = nat height, ncols = nat width, px = (\<lambda>i j. 0) \<rparr>"

text \<open>\<^verbatim>\<open>np.clip(v, 0, 255).astype(np.uint8)\<close> of one float32 value: the cast truncates.\<close>

definition clip_uint8 :: "real \<Rightarrow> nat" where
  "clip_uint8 v = nat \<lfloor>min (max v 0) 255\<rfloor>"

text \<open>Rounding to the nearest integer, ties to the even one.\<close>

definition round_even :: "real \<Rightarrow> int" where
  "round_even q =
     (let f = \<lfloor>q\<rfloor>; r = q - of_int f
      in if r < 1 / 2 then f else if 1 / 2 < r then f + 1 else if even f then f else f + 1)"

text \<open>
  Rounding to float32: the nearest multiple of the unit in the last place, which for a
  significand of 24 bits is \<open>2\<close> to the power \<open>\<lfloor>log\<^sub>2 |x|\<rfloor> - 23\<close>.
\<close>

definition f32_round :: "real \<Rightarrow> real" where
  "f32_round x =
     (if x = 0 then 0
      else let u = 2 powr of_int (\<lfloor>log 2 \<bar>x\<bar>\<rfloor> - 23)
           in of_int (round_even (x / u)) * u)"

text \<open>
  \<^verbatim>\<open>region *= args.darken\<close> for one channel: the byte is a float32 as it is, the factor
  is rounded to float32, and so is their product.
\<close>

definition f32_mul :: "nat \<Rightarrow> real \<Rightarrow> real" where
  "f32_mul v d = f32_round (real v * f32_round d)"

text \<open>
  The darkening of the pixels selected by \<^verbatim>\<open>mask == 255\<close>, all channels of each; the
  mask has the shape of the frame.
\<close>

definition darken_region :: "real \<Rightarrow> array2d \<Rightarrow> array3d \<Rightarrow> array3d" where
  "darken_region darken msk out =
     out\<lparr> px3 := (\<lambda>i j c. if px msk i j = 255
                            then clip_uint8 (f32_mul (px3 out i j c) darken)
                            else px3 out i j c) \<rparr>"

definition composite ::
  "cvlib \<Rightarrow> array3d \<Rightarrow> array2d \<Rightarrow> nat \<Rightarrow> real \<Rightarrow> real \<Rightarrow> inpaint_method \<Rightarrow> array3d" where
  "composite cv frame msk active_spots darken inpaint_radius inpaint_flag =
     (if active_spots > 0
      then let inpainted = inpaint cv frame msk inpaint_radius inpaint_flag;
               out = inpainted
           in if darken < 1 then darken_region darken msk out else out
      else frame)"

definition overlay :: "cvlib \<Rightarrow> bool \<Rightarrow> circle list \<Rightarrow> array3d \<Rightarrow> array3d" where
  "overlay cv debug debug_circles out =
     (if debug \<and> debug_circles \<noteq> []
      then foldl (\<lambda>img (cx, cy, r). draw_circle cv img cx cy r) out debug_circles
      else out)"

subsection \<open>main\<close>

record args =
  darken :: real
  arg_max_shift :: int
  arg_match_threshold :: real
  inpaint_radius :: real
  arg_inpaint_method :: inpaint_method
  debug :: bool

record spots_json =
  spots :: "spot_def list"
  frame_width :: int
  frame_height :: int
  frame_index :: int

text \<open>
  The capture: whether it opened, the size it reports, and the frames it holds.
  \<^verbatim>\<open>cap.set(CAP_PROP_POS_FRAMES, i)\<close> followed by \<^verbatim>\<open>cap.read()\<close> yields frame \<open>i\<close>, or fails
  when there is none.
\<close>

record capture =
  opened :: bool
  cap_width :: int
  cap_height :: int
  frames :: "array3d list"

definition read_at :: "capture \<Rightarrow> int \<Rightarrow> array3d option" where
  "read_at cap i =
     (if 0 \<le> i \<and> i < int (length (frames cap)) then Some (frames cap ! nat i) else None)"

text \<open>
  What a run leaves behind: the lines printed, and the frames written to the output file
  (\<open>None\<close> when no writer was ever created).
\<close>

record outcome =
  printed :: "message list"
  written :: "array3d list option"
  final_tracks :: "spot list"

text \<open>One iteration of \<^verbatim>\<open>while True\<close>: the tracks after the frame and the frame written.\<close>

definition process_frame ::
  "cvlib \<Rightarrow> args \<Rightarrow> int \<Rightarrow> int \<Rightarrow> int \<Rightarrow> real \<Rightarrow> spot list \<Rightarrow> array3d \<Rightarrow>
   error + (spot list \<times> array3d)" where
  "process_frame cv a width height max_shift match_threshold spot_templates frame =
     (let gray_proc = preprocess cv frame;
          msk = zeros height width
      in case track_spots cv gray_proc width height max_shift match_threshold (debug a)
                spot_templates msk 0 [] of
           Inl e \<Rightarrow> Inl e
         | Inr (ts, msk', active_spots, debug_circles) \<Rightarrow>
             Inr (ts, overlay cv (debug a) debug_circles
                        (composite cv frame msk' active_spots (darken a)
                           (inpaint_radius a) (arg_inpaint_method a))))"

fun process_frames ::
  "cvlib \<Rightarrow> args \<Rightarrow> int \<Rightarrow> int \<Rightarrow> int \<Rightarrow> real \<Rightarrow> spot list \<Rightarrow> array3d list \<Rightarrow>
   error + (spot list \<times> array3d list)" where
  "process_frames cv a width height max_shift match_threshold ts [] = Inr (ts, [])"
| "process_frames cv a width height max_shift match_threshold ts (f # fs) =
     (case process_frame cv a width height max_shift match_threshold ts f of
        Inl e \<Rightarrow> Inl e
      | Inr (ts', out) \<Rightarrow>
          (case process_frames cv a width height max_shift match_threshold ts' fs of
             Inl e \<Rightarrow> Inl e
           | Inr (ts'', outs) \<Rightarrow> Inr (ts'', out # outs)))"

definition main :: "cvlib \<Rightarrow> args \<Rightarrow> spots_json \<Rightarrow> capture \<Rightarrow> error + outcome" where
  "main cv a data cap =
     (if \<not> opened cap
      then Inr \<lparr> printed = [ErrCannotOpen], written = None, final_tracks = [] \<rparr>
      else
        let width = cap_width cap; height = cap_height cap
        in if width \<noteq> frame_width data \<or> height \<noteq> frame_height data
           then Inr \<lparr> printed = [ErrResolutionMismatch], written = None, final_tracks = [] \<rparr>
           else
             (case read_at cap (frame_index data) of
                None \<Rightarrow>
                  Inr \<lparr> printed = [ErrCannotReadReference], written = None, final_tracks = [] \<rparr>
              | Some ref_frame \<Rightarrow>
                  (case build_spot_templates cv ref_frame (spots data) width height of
                     (warnings, spot_templates) \<Rightarrow>
                       if spot_templates = []
                       then Inr \<lparr> printed = warnings @ [NothingToDo], written = None,
                                   final_tracks = [] \<rparr>
                       else
                         let max_shift = max 1 (arg_max_shift a);
                             match_threshold = max 0 (min 1 (arg_match_threshold a))
                         in (case process_frames cv a width height max_shift match_threshold
                                    spot_templates (frames cap) of
                               Inl e \<Rightarrow> Inl e
                             | Inr (ts, outs) \<Rightarrow>
                                 Inr \<lparr> printed = warnings @ [Done], written = Some outs,
                                        final_tracks = ts \<rparr>))))"

subsection \<open>Properties stated about tracks\<close>

text \<open>The centre of a track lies in \<open>[0, width-1] \<times> [0, height-1]\<close>.\<close>

definition in_frame :: "int \<Rightarrow> int \<Rightarrow> spot \<Rightarrow> bool" where
  "in_frame width height sp =
     (0 \<le> last_cx sp \<and> last_cx sp \<le> width - 1 \<and> 0 \<le> last_cy sp \<and> last_cy sp \<le> height - 1)"

text \<open>The centre of a definition lies inside the frame.\<close>

definition def_in_frame :: "int \<Rightarrow> int \<Rightarrow> spot_def \<Rightarrow> bool" where
  "def_in_frame width height s =
     (0 \<le> def_x s \<and> def_x s \<le> width - 1 \<and> 0 \<le> def_y s \<and> def_y s \<le> height - 1)"



subsection \<open>Concrete inputs\<close>

text \<open>
  The inputs at which the functions above are evaluated below: a 64 by 48 frame with a
  texture that repeats nowhere, and stand-ins for the OpenCV collaborators. The stand-in
  for \<^verbatim>\<open>cv2.matchTemplate\<close> with \<^verbatim>\<open>TM_CCOEFF_NORMED\<close> scans the positions in the order of
  \<^verbatim>\<open>cv2.minMaxLoc\<close> (row by row) and reports the first window that is pixel-identical to
  the template with score 1, the value of the normalised correlation there and its
  maximum; it reports score 0 when there is none, and raises when the template does not
  fit or is empty. The stand-in for the grey, edge-transformed image is the first channel.
  The stand-in for the filled circle marks the pixels within the radius of the centre;
  the one for the outline of thickness 2 paints red (channel 2 of a BGR pixel) the ring
  of the pixels whose distance from the centre is within one of the radius. The stand-in
  for the inpainting returns the frame as it is.
\<close>

fun all_of :: "('a \<Rightarrow> bool) \<Rightarrow> 'a list \<Rightarrow> bool" where
  "all_of P [] = True"
| "all_of P (a # as) = (if P a then all_of P as else False)"

definition window_eq :: "array2d \<Rightarrow> array2d \<Rightarrow> nat \<Rightarrow> nat \<Rightarrow> bool" where
  "window_eq roi t u v =
     all_of (\<lambda>i. all_of (\<lambda>j. px roi (v + i) (u + j) = px t i j) [0..<ncols t]) [0..<nrows t]"

definition exact_match :: "array2d \<Rightarrow> array2d \<Rightarrow> (real \<times> int \<times> int) option" where
  "exact_match roi t =
     (if nrows roi < nrows t \<or> ncols roi < ncols t \<or> size2d t = 0 then None
      else case find (\<lambda>(v, u). window_eq roi t u v)
                  (List.product [0..<nrows roi - nrows t + 1] [0..<ncols roi - ncols t + 1]) of
             Some (v, u) \<Rightarrow> Some (1, int u, int v)
           | None \<Rightarrow> Some (0, 0, 0))"

definition texture :: array3d where
  "texture = \<lparr> rows3 = 48, cols3 = 64, px3 = (\<lambda>i j c. (i * i + 3 * j * j + i * j) mod 251) \<rparr>"

definition test_cv :: cvlib where
  "test_cv = \<lparr> preprocess = (\<lambda>f. \<lparr> nrows = rows3 f, ncols = cols3 f, px = (\<lambda>i j. px3 f i j 0) \<rparr>),
               matchTemplate = exact_match,
               fill_circle = (\<lambda>m cx cy r. m\<lparr> px := (\<lambda>i j. if (int j - cx)\<^sup>2 + (int i - cy)\<^sup>2 \<le> r\<^sup>2
                                                           then 255 else px m i j) \<rparr>),
               inpaint = (\<lambda>f m r k. f),
               draw_circle = (\<lambda>f cx cy r. f\<lparr> px3 := (\<lambda>i j c.
                   if (r - 1)\<^sup>2 \<le> (int j - cx)\<^sup>2 + (int i - cy)\<^sup>2
                      \<and> (int j - cx)\<^sup>2 + (int i - cy)\<^sup>2 \<le> (r + 1)\<^sup>2
                   then (if c = 2 then 255 else 0) else px3 f i j c) \<rparr>) \<rparr>"

definition gray_texture :: array2d where
  "gray_texture = preprocess test_cv texture"

text \<open>The track of a definition whose clipped box is \<open>[x1, x2) \<times> [y1, y2)\<close>.\<close>

definition track_of :: "spot_def \<Rightarrow> int \<Rightarrow> int \<Rightarrow> int \<Rightarrow> int \<Rightarrow> spot" where
  "track_of s x1 y1 x2 y2 =
     \<lparr> radius = def_radius s, template = slice2d gray_texture y1 y2 x1 x2,
       templ_w = x2 - x1, templ_h = y2 - y1,
       origin_cx = def_x s, origin_cy = def_y s, last_cx = def_x s, last_cy = def_y s,
       alive = True \<rparr>"

text \<open>A spot well inside the frame.\<close>

definition inner_spot :: spot_def where
  "inner_spot = \<lparr> def_x = 30, def_y = 20, def_radius = 3 \<rparr>"

definition inner_track :: spot where
  "inner_track = track_of inner_spot 23 13 37 27"

text \<open>A spot inside the frame whose box is clipped at the left border.\<close>

definition edge_spot :: spot_def where
  "edge_spot = \<lparr> def_x = 2, def_y = 20, def_radius = 3 \<rparr>"

definition edge_track :: spot where
  "edge_track = track_of edge_spot 0 13 9 27"

text \<open>A spot to the right of the frame whose box still meets the last column.\<close>

definition far_spot :: spot_def where
  "far_spot = \<lparr> def_x = 70, def_y = 20, def_radius = 3 \<rparr>"

definition far_track :: spot where
  "far_track = track_of far_spot 63 13 64 27"

text \<open>A spot to the left of the frame whose box still meets the first two columns.\<close>

definition outside_spot :: spot_def where
  "outside_spot = \<lparr> def_x = - 12, def_y = 20, def_radius = 10 \<rparr>"

definition outside_track :: spot where
  "outside_track = track_of outside_spot 0 6 2 34"

text \<open>A spot whose box lies wholly to the left of the frame.\<close>

definition wrapped_spot :: spot_def where
  "wrapped_spot = \<lparr> def_x = - 10, def_y = 20, def_radius = 3 \<rparr>"

text \<open>A spot whose box lies wholly beyond the bottom right corner.\<close>

definition gone_spot :: spot_def where
  "gone_spot = \<lparr> def_x = 200, def_y = 200, def_radius = 3 \<rparr>"

text \<open>A frame without any texture: no window of it resembles a template cut from \<open>texture\<close>.\<close>

definition flat_gray :: array2d where
  "flat_gray = \<lparr> nrows = 48, ncols = 64, px = (\<lambda>i j. 0) \<rparr>"

definition test_args :: args where
  "test_args = \<lparr> darken = 1 / 2, arg_max_shift = 6, arg_match_threshold = 1 / 2,
                 inpaint_radius = 3, arg_inpaint_method = Telea, debug = False \<rparr>"


definition test_cap :: capture where
  "test_cap = \<lparr> opened = True, cap_width = 64, cap_height = 48, frames = [texture, texture] \<rparr>"

definition test_json :: "spot_def list \<Rightarrow> spots_json" where
  "test_json ss = \<lparr> spots = ss, frame_width = 64, frame_height = 48, frame_index = 0 \<rparr>"

section \<open>Evaluation at the concrete inputs\<close>

lemma gray_texture_shape: "nrows gray_texture = 48" "ncols gray_texture = 64"
  by (simp_all add: gray_texture_def test_cv_def texture_def)

lemma gray_texture_px: "px gray_texture i j = (i * i + 3 * j * j + i * j) mod 251"
  by (simp add: gray_texture_def test_cv_def texture_def)

lemmas build_eval = build_one_def template_box_def margin_def track_of_def
  slice2d_def slice_len_def slice_start_def slice_index_def size2d_def gray_texture_shape

lemmas roi_eval = roi_of_def search_region_def track_of_def
  slice2d_def slice_len_def slice_start_def slice_index_def gray_texture_shape

lemmas match_eval = exact_match_def window_eq_def size2d_def gray_texture_px upt_conv_Cons

lemma build_inner: "build_one gray_texture inner_spot 64 48 = Inr inner_track"
  by (simp add: build_eval inner_spot_def inner_track_def)

lemma build_edge: "build_one gray_texture edge_spot 64 48 = Inr edge_track"
  by (simp add: build_eval edge_spot_def edge_track_def)

lemma build_far: "build_one gray_texture far_spot 64 48 = Inr far_track"
  by (simp add: build_eval far_spot_def far_track_def)

lemma build_outside: "build_one gray_texture outside_spot 64 48 = Inr outside_track"
  by (simp add: build_eval outside_spot_def outside_track_def)

lemma build_gone: "build_one gray_texture gone_spot 64 48 = Inl (WarnEmptyTemplate 200 200)"
  by (simp add: build_eval gone_spot_def)

lemma fields_inner:
  "templ_w inner_track = 14" "templ_h inner_track = 14" "last_cx inner_track = 30"
  "last_cy inner_track = 20" "origin_cx inner_track = 30" "origin_cy inner_track = 20"
  "alive inner_track" "radius inner_track = 3"
  by (simp_all add: inner_track_def track_of_def inner_spot_def)

lemma fields_edge:
  "templ_w edge_track = 9" "templ_h edge_track = 14" "last_cx edge_track = 2"
  "last_cy edge_track = 20" "origin_cx edge_track = 2" "origin_cy edge_track = 20"
  "alive edge_track" "radius edge_track = 3"
  by (simp_all add: edge_track_def track_of_def edge_spot_def)

lemma fields_far:
  "templ_w far_track = 1" "templ_h far_track = 14" "last_cx far_track = 70"
  "last_cy far_track = 20" "alive far_track"
  by (simp_all add: far_track_def track_of_def far_spot_def)

lemma fields_outside:
  "templ_w outside_track = 2" "templ_h outside_track = 28" "last_cx outside_track = - 12"
  "last_cy outside_track = 20" "alive outside_track"
  by (simp_all add: outside_track_def track_of_def outside_spot_def)

lemma roi_far: "roi_of far_track gray_texture 64 48 6 =
    \<lparr> nrows = 26, ncols = 0, px = (\<lambda>i j. px gray_texture (7 + i) (64 + j)) \<rparr>"
  by (simp add: roi_eval far_track_def far_spot_def)

lemma roi_edge: "roi_of edge_track gray_texture 64 48 6 =
    \<lparr> nrows = 26, ncols = 12, px = (\<lambda>i j. px gray_texture (7 + i) j) \<rparr>"
  by (simp add: roi_eval edge_track_def edge_spot_def)

lemma templ_edge: "template edge_track =
    \<lparr> nrows = 14, ncols = 9, px = (\<lambda>i j. px gray_texture (13 + i) j) \<rparr>"
  by (simp add: roi_eval edge_track_def edge_spot_def)

lemma match_edge:
  "exact_match \<lparr> nrows = 26, ncols = 12, px = (\<lambda>i j. px gray_texture (7 + i) j) \<rparr>
               \<lparr> nrows = 14, ncols = 9, px = (\<lambda>i j. px gray_texture (13 + i) j) \<rparr>
     = Some (1, 0, 6)"
  by (simp add: match_eval)

lemma track_edge:
  "track_spot_on_frame test_cv edge_track gray_texture 64 48 6 (1 / 2)
     = Inr (edge_track\<lparr> last_cx := 4, last_cy := 20 \<rparr>)"
proof -
  have m: "matchTemplate test_cv (roi_of edge_track gray_texture 64 48 6) (template edge_track)
            = Some (1, 0, 6)"
    by (simp add: test_cv_def roi_edge templ_edge match_edge)
  show ?thesis
    by (simp add: track_spot_on_frame_def m Let_def)
       (simp add: roi_edge fields_edge search_region_def)
qed

lemma roi_inner_flat: "roi_of inner_track flat_gray 64 48 6 =
    \<lparr> nrows = 26, ncols = 26, px = (\<lambda>i j. 0) \<rparr>"
  by (simp add: roi_of_def search_region_def fields_inner slice2d_def slice_len_def
      slice_start_def slice_index_def flat_gray_def)

lemma templ_inner: "template inner_track =
    \<lparr> nrows = 14, ncols = 14, px = (\<lambda>i j. px gray_texture (13 + i) (23 + j)) \<rparr>"
  by (simp add: roi_eval inner_track_def inner_spot_def)

lemma match_inner_flat:
  "exact_match \<lparr> nrows = 26, ncols = 26, px = (\<lambda>i j. 0) \<rparr>
               \<lparr> nrows = 14, ncols = 14, px = (\<lambda>i j. px gray_texture (13 + i) (23 + j)) \<rparr>
     = Some (0, 0, 0)"
  by (simp add: match_eval)

section \<open>The tracker step\<close>

lemma track_spot_cases:
  assumes "track_spot_on_frame cv sp g w h ms th = Inr sp'"
  shows "sp' = sp \<or> (\<exists>c d. sp' = sp\<lparr> last_cx := c, last_cy := d \<rparr>)"
  using assms
  by (auto simp add: track_spot_on_frame_def Let_def split: if_splits option.splits prod.splits)

lemma track_spot_alive:
  assumes "track_spot_on_frame cv sp g w h ms th = Inr sp'"
  shows "alive sp' = alive sp"
  using track_spot_cases [OF assms] by auto

lemma track_spot_dead:
  "\<not> alive sp \<Longrightarrow> track_spot_on_frame cv sp g w h ms th = Inr sp"
  by (simp add: track_spot_on_frame_def)

lemma keep_spot_Inr:
  "keep_spot sp r = Inr (ts', m', n', cs') \<Longrightarrow>
     \<exists>ts. r = Inr (ts, m', n', cs') \<and> ts' = sp # ts"
  by (auto simp: keep_spot_def split: sum.splits prod.splits)

text \<open>
  The loop over the tracks of a frame hands every entry to the tracker and to nothing
  else: entry \<open>i\<close> of the result is the tracker's result on entry \<open>i\<close>.
\<close>

lemma track_spots_pointwise:
  assumes "track_spots cv g w h ms th dbg ts m n cs = Inr (ts', m', n', cs')"
  shows "length ts' = length ts \<and>
         (\<forall>i<length ts. track_spot_on_frame cv (ts ! i) g w h ms th = Inr (ts' ! i))"
  using assms
proof (induction ts arbitrary: ts' m n cs)
  case Nil
  then show ?case by simp
next
  case (Cons sp sps)
  show ?case
  proof (cases "alive sp")
    case False
    with Cons.prems obtain us where
      r: "track_spots cv g w h ms th dbg sps m n cs = Inr (us, m', n', cs')"
      and ts': "ts' = sp # us"
      by (auto dest: keep_spot_Inr)
    from Cons.IH [OF r] ts' False show ?thesis
      by (auto simp: nth_Cons track_spot_dead split: nat.splits)
  next
    case True
    with Cons.prems obtain sp1 where
      t: "track_spot_on_frame cv sp g w h ms th = Inr sp1"
      by (auto split: sum.splits)
    have a1: "alive sp1" using track_spot_alive [OF t] True by simp
    from Cons.prems True t a1 obtain us m1 n1 cs1 where
      r: "track_spots cv g w h ms th dbg sps m1 n1 cs1 = Inr (us, m', n', cs')"
      and ts': "ts' = sp1 # us"
      by (auto simp: Let_def dest: keep_spot_Inr)
    from Cons.IH [OF r] ts' t show ?thesis
      by (auto simp: nth_Cons split: nat.splits)
  qed
qed

subsection \<open>Hold\<close>

text \<open>
  The two hold branches, on the array \<open>roi\<close> that the tracker slices out of the frame:
  when that array is smaller than the template in either dimension, or when the matcher
  returns a best score below the threshold, the call returns normally (\<open>Inr\<close>, no
  exception) and the track it returns is the track it was given. In the first case the
  matcher is not even called.
\<close>

lemma hold_on_small_roi_or_weak_match:
  assumes "alive sp"
    and "int (nrows (roi_of sp g w h ms)) < templ_h sp
         \<or> int (ncols (roi_of sp g w h ms)) < templ_w sp
         \<or> (\<exists>max_val u v.
               matchTemplate cv (roi_of sp g w h ms) (template sp) = Some (max_val, u, v)
               \<and> max_val < th)"
  shows "track_spot_on_frame cv sp g w h ms th = Inr sp"
  using assms by (auto simp add: track_spot_on_frame_def Let_def)

text \<open>
  Two instances: a region of no columns against a template of one column, and a frame
  without texture, on which the best score is 0, below the threshold 1/2.
\<close>

lemma hold_instances:
  "alive far_track
   \<and> int (ncols (roi_of far_track gray_texture 64 48 6)) < templ_w far_track
   \<and> track_spot_on_frame test_cv far_track gray_texture 64 48 6 (1 / 2) = Inr far_track
   \<and> alive inner_track
   \<and> matchTemplate test_cv (roi_of inner_track flat_gray 64 48 6) (template inner_track)
       = Some (0, 0, 0)
   \<and> track_spot_on_frame test_cv inner_track flat_gray 64 48 6 (1 / 2) = Inr inner_track"
proof -
  have small: "int (ncols (roi_of far_track gray_texture 64 48 6)) < templ_w far_track"
    by (simp add: roi_far fields_far)
  have weak: "matchTemplate test_cv (roi_of inner_track flat_gray 64 48 6) (template inner_track)
                = Some (0, 0, 0)"
    by (simp add: test_cv_def roi_inner_flat templ_inner match_inner_flat)
  have "track_spot_on_frame test_cv far_track gray_texture 64 48 6 (1 / 2) = Inr far_track"
    using hold_on_small_roi_or_weak_match [of far_track gray_texture 64 48 6 test_cv "1 / 2"]
      small fields_far by simp
  moreover
  have "track_spot_on_frame test_cv inner_track flat_gray 64 48 6 (1 / 2) = Inr inner_track"
    using hold_on_small_roi_or_weak_match [of inner_track flat_gray 64 48 6 test_cv "1 / 2"]
      weak fields_inner by simp
  ultimately show ?thesis
    using small weak fields_far fields_inner by simp
qed

subsection \<open>Frame condition (C10)\<close>

text \<open>
  C10. A call of the tracker that returns gives back the track with the same radius,
  template, template width and height, origin centre and alive flag: only \<open>last_cx\<close>
  and \<open>last_cy\<close> can differ. In the loop over the tracks of a frame, every entry of the
  list after the loop is the tracker's result on the entry at the same index, so a call
  on one track leaves every other track as it was.
\<close>

theorem tracker_frame_condition:
  "(track_spot_on_frame cv sp g w h ms th = Inr sp' \<longrightarrow>
      radius sp' = radius sp \<and> template sp' = template sp \<and> templ_w sp' = templ_w sp \<and>
      templ_h sp' = templ_h sp \<and> origin_cx sp' = origin_cx sp \<and>
      origin_cy sp' = origin_cy sp \<and> alive sp' = alive sp) \<and>
   (track_spots cv g w h ms th dbg ts m n cs = Inr (ts', m', n', cs') \<longrightarrow>
      length ts' = length ts \<and>
      (\<forall>i<length ts. track_spot_on_frame cv (ts ! i) g w h ms th = Inr (ts' ! i)))"
proof (intro conjI impI)
  assume "track_spots cv g w h ms th dbg ts m n cs = Inr (ts', m', n', cs')"
  from track_spots_pointwise [OF this]
  show "length ts' = length ts"
    and "\<forall>i<length ts. track_spot_on_frame cv (ts ! i) g w h ms th = Inr (ts' ! i)"
    by simp_all
qed (auto dest!: track_spot_cases)

subsection \<open>The search region (C4)\<close>

text \<open>
  C4, as stated, fails for a template of odd width: the track of \<open>edge_spot\<close> has a
  template 9 columns wide, and with \<open>max_shift = 6\<close> its search region spans the columns
  \<open>-8\<close> to \<open>12\<close>, which is 20 wide, not \<open>9 + 2 * 6 = 21\<close>.
\<close>

theorem search_region_width_counterexample:
  "build_one gray_texture edge_spot 64 48 = Inr edge_track
   \<and> templ_w edge_track = 9
   \<and> search_region edge_track 6 = (- 8, 7, 12, 33)
   \<and> (12 :: int) - (- 8) \<noteq> 9 + 2 * 6"
  by (simp add: build_edge fields_edge search_region_def)

text \<open>
  C4, amended. The search region before clipping is centred on the last centre, and its
  width is \<open>2 * (templ_w div 2) + 2 * max_shift\<close>: the template width plus twice the
  shift when the template width is even, one less when it is odd. The same holds for
  the height.
\<close>

theorem search_region_extent:
  "(case search_region sp ms of (roi_x1, roi_y1, roi_x2, roi_y2) \<Rightarrow>
      roi_x1 + roi_x2 = 2 * last_cx sp \<and> roi_y1 + roi_y2 = 2 * last_cy sp \<and>
      roi_x2 - roi_x1 = 2 * (templ_w sp div 2) + 2 * ms \<and>
      roi_y2 - roi_y1 = 2 * (templ_h sp div 2) + 2 * ms \<and>
      roi_x2 - roi_x1 = templ_w sp + 2 * ms - templ_w sp mod 2 \<and>
      roi_y2 - roi_y1 = templ_h sp + 2 * ms - templ_h sp mod 2)"
  by (simp add: search_region_def Let_def) presburger

section \<open>Runs on the concrete inputs\<close>


lemma roi_inner: "roi_of inner_track gray_texture 64 48 6 =
    \<lparr> nrows = 26, ncols = 26, px = (\<lambda>i j. px gray_texture (7 + i) (17 + j)) \<rparr>"
  by (simp add: roi_eval inner_track_def inner_spot_def)

lemma match_inner:
  "exact_match \<lparr> nrows = 26, ncols = 26, px = (\<lambda>i j. px gray_texture (7 + i) (17 + j)) \<rparr>
               \<lparr> nrows = 14, ncols = 14, px = (\<lambda>i j. px gray_texture (13 + i) (23 + j)) \<rparr>
     = Some (1, 6, 6)"
  by (simp add: match_eval)

lemma spot_update_id: "sp\<lparr> last_cx := last_cx sp, last_cy := last_cy sp \<rparr> = sp"
  by simp

lemma track_inner:
  "track_spot_on_frame test_cv inner_track gray_texture 64 48 6 (1 / 2) = Inr inner_track"
proof -
  have m: "matchTemplate test_cv (roi_of inner_track gray_texture 64 48 6) (template inner_track)
            = Some (1, 6, 6)"
    by (simp add: test_cv_def roi_inner templ_inner match_inner)
  have "track_spot_on_frame test_cv inner_track gray_texture 64 48 6 (1 / 2)
          = Inr (inner_track\<lparr> last_cx := 30, last_cy := 20 \<rparr>)"
    by (simp add: track_spot_on_frame_def m Let_def)
       (simp add: roi_inner fields_inner search_region_def)
  also have "inner_track\<lparr> last_cx := 30, last_cy := 20 \<rparr> = inner_track"
    using spot_update_id [of inner_track] by (simp add: fields_inner)
  finally show ?thesis .
qed

lemma track_spots_inner:
  "track_spots test_cv gray_texture 64 48 6 (1 / 2) False [inner_track] m 0 [] =
     Inr ([inner_track], fill_circle test_cv m 30 20 3, 1, [])"
  by (simp add: track_inner fields_inner keep_spot_def Let_def)

lemma fields_args:
  "debug test_args = False" "darken test_args = 1 / 2" "arg_max_shift test_args = 6"
  "arg_match_threshold test_args = 1 / 2"
  by (simp_all add: test_args_def)

lemma preprocess_texture: "preprocess test_cv texture = gray_texture"
  by (simp add: gray_texture_def)

lemma process_frame_inner:
  "\<exists>out. process_frame test_cv test_args 64 48 6 (1 / 2) [inner_track] texture = Inr ([inner_track], out)"
  by (simp only: process_frame_def Let_def preprocess_texture fields_args track_spots_inner) simp

lemma process_frames_inner:
  "\<exists>outs. process_frames test_cv test_args 64 48 6 (1 / 2) [inner_track] [texture, texture]
       = Inr ([inner_track], outs)"
proof -
  from process_frame_inner obtain out where
    "process_frame test_cv test_args 64 48 6 (1 / 2) [inner_track] texture = Inr ([inner_track], out)"
    by blast
  then show ?thesis by simp
qed

lemma build_templates_inner:
  "build_spot_templates test_cv texture [inner_spot] 64 48 = ([], [inner_track])"
  by (simp add: build_spot_templates_def build_inner preprocess_texture)

lemma main_inner:
  "\<exists>outs. main test_cv test_args (test_json [inner_spot]) test_cap
     = Inr \<lparr> printed = [Done], written = Some outs, final_tracks = [inner_track] \<rparr>"
proof -
  from process_frames_inner obtain outs where
    p: "process_frames test_cv test_args 64 48 6 (1 / 2) [inner_track] [texture, texture]
       = Inr ([inner_track], outs)" by blast
  have "main test_cv test_args (test_json [inner_spot]) test_cap
     = Inr \<lparr> printed = [Done], written = Some outs, final_tracks = [inner_track] \<rparr>"
    by (simp add: main_def test_cap_def test_json_def read_at_def build_templates_inner Let_def
         fields_args p del: process_frames.simps)
  then show ?thesis by blast
qed

lemma track_far:
  "track_spot_on_frame test_cv far_track gray_texture 64 48 6 (1 / 2) = Inr far_track"
  by (simp add: fields_far track_spot_on_frame_def Let_def roi_far)

lemma track_spots_edge_far:
  "track_spots test_cv gray_texture 64 48 6 (1 / 2) False [edge_track, far_track] m 0 [] =
     Inr ([edge_track\<lparr> last_cx := 4, last_cy := 20 \<rparr>, far_track],
          fill_circle test_cv (fill_circle test_cv m 4 20 3) 70 20 3, 2, [])"
proof -
  have r: "radius far_track = 3" by (simp add: far_track_def track_of_def far_spot_def)
  show ?thesis
    by (simp add: track_edge track_far fields_edge fields_far r keep_spot_def Let_def)
qed

text \<open>
  An instance of C10: a frame with two tracks, the first of which moves while the second
  holds.
\<close>

theorem tracker_frame_condition_witness:
  "track_spot_on_frame test_cv edge_track gray_texture 64 48 6 (1 / 2)
       = Inr (edge_track\<lparr> last_cx := 4, last_cy := 20 \<rparr>)
   \<and> template (edge_track\<lparr> last_cx := 4, last_cy := 20 \<rparr>) = template edge_track
   \<and> origin_cx (edge_track\<lparr> last_cx := 4, last_cy := 20 \<rparr>) = origin_cx edge_track
   \<and> track_spots test_cv gray_texture 64 48 6 (1 / 2) False [edge_track, far_track] (zeros 48 64) 0 []
       = Inr ([edge_track\<lparr> last_cx := 4, last_cy := 20 \<rparr>, far_track],
              fill_circle test_cv (fill_circle test_cv (zeros 48 64) 4 20 3) 70 20 3, 2, [])
   \<and> track_spot_on_frame test_cv ([edge_track, far_track] ! 1) gray_texture 64 48 6 (1 / 2)
       = Inr ([edge_track\<lparr> last_cx := 4, last_cy := 20 \<rparr>, far_track] ! 1)"
proof -
  note inst = tracker_frame_condition [where cv = test_cv and sp = edge_track and g = gray_texture
      and w = 64 and h = 48 and ms = 6 and th = "1 / 2"
      and sp' = "edge_track\<lparr> last_cx := 4, last_cy := 20 \<rparr>" and dbg = False
      and ts = "[edge_track, far_track]" and m = "zeros 48 64" and n = 0 and cs = "[]"
      and ts' = "[edge_track\<lparr> last_cx := 4, last_cy := 20 \<rparr>, far_track]"
      and m' = "fill_circle test_cv (fill_circle test_cv (zeros 48 64) 4 20 3) 70 20 3"
      and n' = 2 and cs' = "[]"]
  from inst track_edge track_spots_edge_far [of "zeros 48 64"]
  have t: "template (edge_track\<lparr> last_cx := 4, last_cy := 20 \<rparr>) = template edge_track"
    and o: "origin_cx (edge_track\<lparr> last_cx := 4, last_cy := 20 \<rparr>) = origin_cx edge_track"
    and q: "\<forall>i<length [edge_track, far_track].
           track_spot_on_frame test_cv ([edge_track, far_track] ! i) gray_texture 64 48 6 (1 / 2)
             = Inr ([edge_track\<lparr> last_cx := 4, last_cy := 20 \<rparr>, far_track] ! i)"
    by blast+
  from q have l: "track_spot_on_frame test_cv ([edge_track, far_track] ! 1) gray_texture 64 48 6 (1 / 2)
       = Inr ([edge_track\<lparr> last_cx := 4, last_cy := 20 \<rparr>, far_track] ! 1)"
    by (rule allE [where x = 1]) simp
  from track_edge track_spots_edge_far [of "zeros 48 64"] t o l show ?thesis
    by blast
qed

section \<open>The template builder and the frame loop\<close>

lemma build_one_Inr:
  assumes "build_one g s w h = Inr t"
  shows "alive t \<and> last_cx t = def_x s \<and> last_cy t = def_y s \<and>
         origin_cx t = def_x s \<and> origin_cy t = def_y s \<and> radius t = def_radius s"
  using assms by (auto simp: build_one_def Let_def split: prod.splits if_splits)

lemma build_loop_tracks:
  "build_loop g ss w h = (ws, ts) \<Longrightarrow> \<forall>t\<in>set ts. \<exists>s\<in>set ss. build_one g s w h = Inr t"
proof (induction ss arbitrary: ws ts)
  case Nil
  then show ?case by simp
next
  case (Cons s ss)
  obtain ws0 ts0 where r: "build_loop g ss w h = (ws0, ts0)" by (cases "build_loop g ss w h")
  from Cons.IH [OF r] Cons.prems r show ?case
    by (cases "build_one g s w h") auto
qed

lemma build_loop_none:
  "snd (build_loop g ss w h) = [] \<Longrightarrow>
     fst (build_loop g ss w h) = map (\<lambda>s. WarnEmptyTemplate (def_x s) (def_y s)) ss"
proof (induction ss)
  case Nil
  then show ?case by simp
next
  case (Cons s ss)
  obtain ws0 ts0 where r: "build_loop g ss w h = (ws0, ts0)" by (cases "build_loop g ss w h")
  show ?case
  proof (cases "build_one g s w h")
    case (Inl m)
    then have "m = WarnEmptyTemplate (def_x s) (def_y s)"
      by (auto simp: build_one_def Let_def split: prod.splits if_splits)
    with Cons Inl r show ?thesis by simp
  next
    case (Inr t)
    with Cons.prems r show ?thesis by simp
  qed
qed

lemma process_frame_pointwise:
  assumes "process_frame cv a w h ms th ts f = Inr (ts', out)"
  shows "length ts' = length ts \<and>
         (\<forall>i<length ts. track_spot_on_frame cv (ts ! i) (preprocess cv f) w h ms th = Inr (ts' ! i))"
proof -
  from assms obtain m' n' cs' where
    "track_spots cv (preprocess cv f) w h ms th (debug a) ts (zeros h w) 0 [] = Inr (ts', m', n', cs')"
    by (auto simp: process_frame_def Let_def split: sum.splits prod.splits)
  from track_spots_pointwise [OF this] show ?thesis .
qed

lemma process_frames_invariant:
  assumes step: "\<And>sp sp' f. P sp \<Longrightarrow>
                   track_spot_on_frame cv sp (preprocess cv f) w h ms th = Inr sp' \<Longrightarrow> P sp'"
    and run: "process_frames cv a w h ms th ts fs = Inr (ts', outs)"
    and init: "\<forall>t\<in>set ts. P t"
  shows "length ts' = length ts \<and> length outs = length fs \<and> (\<forall>t\<in>set ts'. P t)"
  using run init
proof (induction fs arbitrary: ts outs)
  case Nil
  then show ?case by simp
next
  case (Cons f fs)
  from Cons.prems(1) obtain ts1 out outs1 where
    f: "process_frame cv a w h ms th ts f = Inr (ts1, out)"
    and r: "process_frames cv a w h ms th ts1 fs = Inr (ts', outs1)"
    and o: "outs = out # outs1"
    by (auto split: sum.splits prod.splits)
  from process_frame_pointwise [OF f] have
    len: "length ts1 = length ts"
    and pt: "\<forall>i<length ts. track_spot_on_frame cv (ts ! i) (preprocess cv f) w h ms th = Inr (ts1 ! i)"
    by simp_all
  have "\<forall>t\<in>set ts1. P t"
  proof
    fix t assume "t \<in> set ts1"
    then obtain i where i: "i < length ts1" "t = ts1 ! i" by (auto simp: in_set_conv_nth)
    with len pt have "track_spot_on_frame cv (ts ! i) (preprocess cv f) w h ms th = Inr t" by simp
    moreover from i len Cons.prems(2) have "P (ts ! i)" by simp
    ultimately show "P t" by (rule step [rotated])
  qed
  from Cons.IH [OF r this] len o show ?case by simp
qed

subsection \<open>Nothing to do (C6)\<close>

text \<open>
  C6. When the capture opens, its size matches the metadata, the reference frame is read
  and the builder discards every definition of a non-empty list, \<open>main\<close> returns
  normally: it has printed one warning per definition followed by the line ``nothing to
  do'', it has printed no error line, it has never created the writer (no frame is
  written) and it has not raised.
\<close>

theorem nothing_to_do:
  assumes "opened cap"
    and "cap_width cap = frame_width data" and "cap_height cap = frame_height data"
    and "read_at cap (frame_index data) = Some ref_frame"
    and "spots data \<noteq> []"
    and "snd (build_spot_templates cv ref_frame (spots data) (cap_width cap) (cap_height cap)) = []"
  shows "main cv a data cap =
           Inr \<lparr> printed = map (\<lambda>s. WarnEmptyTemplate (def_x s) (def_y s)) (spots data) @ [NothingToDo],
                 written = None, final_tracks = [] \<rparr>"
proof -
  let ?b = "build_spot_templates cv ref_frame (spots data) (cap_width cap) (cap_height cap)"
  from assms(6) have "fst ?b = map (\<lambda>s. WarnEmptyTemplate (def_x s) (def_y s)) (spots data)"
    unfolding build_spot_templates_def by (rule build_loop_none)
  with assms(6) have b: "?b = (map (\<lambda>s. WarnEmptyTemplate (def_x s) (def_y s)) (spots data), [])"
    by (cases ?b) simp
  from assms(1-4) b show ?thesis
    by (simp add: main_def Let_def)
qed

theorem nothing_to_do_witness:
  "opened test_cap
   \<and> cap_width test_cap = frame_width (test_json [gone_spot])
   \<and> cap_height test_cap = frame_height (test_json [gone_spot])
   \<and> read_at test_cap (frame_index (test_json [gone_spot])) = Some texture
   \<and> spots (test_json [gone_spot]) \<noteq> []
   \<and> snd (build_spot_templates test_cv texture (spots (test_json [gone_spot]))
             (cap_width test_cap) (cap_height test_cap)) = []
   \<and> main test_cv test_args (test_json [gone_spot]) test_cap
       = Inr \<lparr> printed = [WarnEmptyTemplate 200 200, NothingToDo], written = None,
               final_tracks = [] \<rparr>"
proof -
  have h: "opened test_cap" "cap_width test_cap = frame_width (test_json [gone_spot])"
    "cap_height test_cap = frame_height (test_json [gone_spot])"
    "read_at test_cap (frame_index (test_json [gone_spot])) = Some texture"
    "spots (test_json [gone_spot]) \<noteq> []"
    by (simp_all add: test_cap_def test_json_def read_at_def)
  have b: "snd (build_spot_templates test_cv texture (spots (test_json [gone_spot]))
             (cap_width test_cap) (cap_height test_cap)) = []"
    by (simp add: test_cap_def test_json_def build_spot_templates_def preprocess_texture build_gone)
  from nothing_to_do [OF h b, of test_args]
  have "main test_cv test_args (test_json [gone_spot]) test_cap
       = Inr \<lparr> printed = [WarnEmptyTemplate 200 200, NothingToDo], written = None,
               final_tracks = [] \<rparr>"
    by (simp add: test_json_def gone_spot_def)
  with h b show ?thesis by simp
qed

subsection \<open>Tracks stay alive (C7)\<close>

text \<open>
  C7. A tracker step returns the alive flag it was given, so the flag never changes: it
  is monotone, and since the drift check is commented out nothing sets it to false.
  Every track that the builder returns is alive, and after any number of frames, and at
  the end of \<open>main\<close>, every track is still alive and none has been dropped.
\<close>

theorem alive_for_whole_run:
  "(track_spot_on_frame cv sp g w h ms th = Inr sp' \<longrightarrow> alive sp' = alive sp) \<and>
   (build_spot_templates cv ref_frame ss w h = (ws, ts) \<and>
    process_frames cv a w h ms th ts fs = Inr (ts', outs) \<longrightarrow>
      length ts' = length ts \<and> (\<forall>t\<in>set ts'. alive t)) \<and>
   (main cv a data cap = Inr res \<longrightarrow> (\<forall>t\<in>set (final_tracks res). alive t))"
proof (intro conjI impI)
  show "alive sp' = alive sp" if "track_spot_on_frame cv sp g w h ms th = Inr sp'"
    using that by (rule track_spot_alive)
next
  assume a: "build_spot_templates cv ref_frame ss w h = (ws, ts) \<and>
    process_frames cv a w h ms th ts fs = Inr (ts', outs)"
  then have "\<forall>t\<in>set ts. alive t"
    by (auto simp: build_spot_templates_def dest!: build_loop_tracks build_one_Inr)
  with process_frames_invariant [of alive cv w h ms th a ts fs ts' outs] a
  show "length ts' = length ts" and "\<forall>t\<in>set ts'. alive t"
    by (auto simp: track_spot_alive)
next
  assume m: "main cv a data cap = Inr res"
  show "\<forall>t\<in>set (final_tracks res). alive t"
  proof (cases "final_tracks res = []")
    case True
    then show ?thesis by simp
  next
    case False
    with m obtain ref_frame ws ts outs where
      b: "build_spot_templates cv ref_frame (spots data) (cap_width cap) (cap_height cap) = (ws, ts)"
      and p: "process_frames cv a (cap_width cap) (cap_height cap) (max 1 (arg_max_shift a))
                (max 0 (min 1 (arg_match_threshold a))) ts (frames cap) = Inr (final_tracks res, outs)"
      by (auto simp: main_def Let_def split: if_splits option.splits prod.splits sum.splits)
    from b have "\<forall>t\<in>set ts. alive t"
      by (auto simp: build_spot_templates_def dest!: build_loop_tracks build_one_Inr)
    with process_frames_invariant [of alive cv _ _ _ _ a ts "frames cap" "final_tracks res" outs, OF _ p]
    show ?thesis by (auto simp: track_spot_alive)
  qed
qed

theorem alive_for_whole_run_witness:
  "track_spot_on_frame test_cv edge_track gray_texture 64 48 6 (1 / 2)
       = Inr (edge_track\<lparr> last_cx := 4, last_cy := 20 \<rparr>)
   \<and> alive (edge_track\<lparr> last_cx := 4, last_cy := 20 \<rparr>) = alive edge_track
   \<and> build_spot_templates test_cv texture [inner_spot] 64 48 = ([], [inner_track])
   \<and> (\<exists>outs. process_frames test_cv test_args 64 48 6 (1 / 2) [inner_track] [texture, texture]
               = Inr ([inner_track], outs))
   \<and> (\<exists>res. main test_cv test_args (test_json [inner_spot]) test_cap = Inr res
             \<and> final_tracks res = [inner_track])
   \<and> alive inner_track"
proof -
  from process_frames_inner obtain outs where
    p: "process_frames test_cv test_args 64 48 6 (1 / 2) [inner_track] [texture, texture]
          = Inr ([inner_track], outs)" by blast
  from main_inner obtain res where
    m: "main test_cv test_args (test_json [inner_spot]) test_cap = Inr res"
    and f: "final_tracks res = [inner_track]" by auto
  note inst = alive_for_whole_run [where cv = test_cv and sp = edge_track and g = gray_texture
      and w = 64 and h = 48 and ms = 6 and th = "1 / 2"
      and sp' = "edge_track\<lparr> last_cx := 4, last_cy := 20 \<rparr>"
      and ss = "[inner_spot]" and ref_frame = texture and ws = "[]" and ts = "[inner_track]"
      and a = test_args and fs = "[texture, texture]" and ts' = "[inner_track]" and outs = outs
      and data = "test_json [inner_spot]" and cap = test_cap and res = res]
  from inst track_edge build_templates_inner p m f
  have "alive (edge_track\<lparr> last_cx := 4, last_cy := 20 \<rparr>) = alive edge_track" and "alive inner_track"
    by simp_all
  with track_edge build_templates_inner p m f show ?thesis by blast
qed

subsection \<open>Frame bounds (C2)\<close>

lemma track_spot_in_frame:
  assumes "0 < w" and "0 < h"
    and "track_spot_on_frame cv sp g w h ms th = Inr sp'"
    and "in_frame w h sp \<or> sp' \<noteq> sp"
  shows "in_frame w h sp'"
  using assms
  by (auto simp add: track_spot_on_frame_def Let_def in_frame_def
      split: if_splits option.splits prod.splits)

lemma build_one_in_frame:
  "build_one g s w h = Inr t \<Longrightarrow> def_in_frame w h s \<Longrightarrow> in_frame w h t"
  by (auto simp: in_frame_def def_in_frame_def dest!: build_one_Inr)

text \<open>
  C2, as stated, fails for a definition whose centre lies outside the frame: \<open>far_spot\<close>
  at \<open>x = 70\<close> in a frame 64 wide survives the builder with a template of one column,
  its search region has no column, the step holds, and the centre stays at 70.
\<close>

theorem bounds_counterexample:
  "build_one gray_texture far_spot 64 48 = Inr far_track
   \<and> alive far_track
   \<and> track_spot_on_frame test_cv far_track gray_texture 64 48 6 (1 / 2) = Inr far_track
   \<and> last_cx far_track = 70
   \<and> \<not> in_frame 64 48 far_track"
  by (simp add: build_far fields_far in_frame_def track_spot_on_frame_def Let_def roi_far)

text \<open>
  C2, amended. In a frame of positive width and height, a step that returns a track
  different from the one given leaves its centre within \<open>[0, width-1] \<times> [0, height-1]\<close>,
  and a step on a track whose centre was within these bounds leaves it within them
  (a hold keeps the centre, an accepted match is clamped). Hence, when the centre of
  every definition lies inside the frame, every track has its centre within the bounds
  after every frame.
\<close>

theorem bounds_invariant:
  assumes "0 < width" and "0 < height"
  shows "(track_spot_on_frame cv sp g width height ms th = Inr sp' \<and>
            (in_frame width height sp \<or> sp' \<noteq> sp) \<longrightarrow> in_frame width height sp') \<and>
         ((\<forall>s\<in>set ss. def_in_frame width height s) \<and>
          build_spot_templates cv ref_frame ss width height = (ws, ts) \<and>
          process_frames cv a width height ms th ts fs = Inr (ts', outs) \<longrightarrow>
            (\<forall>t\<in>set ts'. in_frame width height t))"
proof (intro conjI impI)
  assume "track_spot_on_frame cv sp g width height ms th = Inr sp' \<and>
            (in_frame width height sp \<or> sp' \<noteq> sp)"
  with assms show "in_frame width height sp'"
    by (blast intro: track_spot_in_frame)
next
  assume a: "(\<forall>s\<in>set ss. def_in_frame width height s) \<and>
          build_spot_templates cv ref_frame ss width height = (ws, ts) \<and>
          process_frames cv a width height ms th ts fs = Inr (ts', outs)"
  then have "\<forall>t\<in>set ts. \<exists>s\<in>set ss. build_one (preprocess cv ref_frame) s width height = Inr t"
    by (auto simp: build_spot_templates_def dest: build_loop_tracks)
  with a have init: "\<forall>t\<in>set ts. in_frame width height t"
    by (blast intro: build_one_in_frame)
  have "length ts' = length ts \<and> length outs = length fs \<and> (\<forall>t\<in>set ts'. in_frame width height t)"
  proof (rule process_frames_invariant [where P = "in_frame width height"])
    show "process_frames cv a width height ms th ts fs = Inr (ts', outs)" using a by simp
    show "\<forall>t\<in>set ts. in_frame width height t" by (rule init)
    show "in_frame width height sp'"
      if "in_frame width height sp"
        and "track_spot_on_frame cv sp (preprocess cv f) width height ms th = Inr sp'"
      for sp sp' f
      using assms that by (blast intro: track_spot_in_frame)
  qed
  then show "\<forall>t\<in>set ts'. in_frame width height t" by simp
qed

theorem bounds_invariant_witness:
  "(0 :: int) < 64 \<and> (0 :: int) < 48
   \<and> track_spot_on_frame test_cv edge_track gray_texture 64 48 6 (1 / 2)
       = Inr (edge_track\<lparr> last_cx := 4, last_cy := 20 \<rparr>)
   \<and> in_frame 64 48 edge_track
   \<and> in_frame 64 48 (edge_track\<lparr> last_cx := 4, last_cy := 20 \<rparr>)
   \<and> def_in_frame 64 48 inner_spot
   \<and> build_spot_templates test_cv texture [inner_spot] 64 48 = ([], [inner_track])
   \<and> (\<exists>outs. process_frames test_cv test_args 64 48 6 (1 / 2) [inner_track] [texture, texture]
               = Inr ([inner_track], outs))
   \<and> in_frame 64 48 inner_track"
proof -
  from process_frames_inner obtain outs where
    p: "process_frames test_cv test_args 64 48 6 (1 / 2) [inner_track] [texture, texture]
          = Inr ([inner_track], outs)" by blast
  have d: "def_in_frame 64 48 inner_spot" by (simp add: def_in_frame_def inner_spot_def)
  have e: "in_frame 64 48 edge_track" by (simp add: in_frame_def fields_edge)
  have w: "(0 :: int) < 64" "(0 :: int) < 48" by simp_all
  note inst = bounds_invariant [OF w, where cv = test_cv and sp = edge_track and g = gray_texture
      and ms = 6 and th = "1 / 2" and sp' = "edge_track\<lparr> last_cx := 4, last_cy := 20 \<rparr>"
      and ss = "[inner_spot]" and ref_frame = texture and ws = "[]" and ts = "[inner_track]"
      and a = test_args and fs = "[texture, texture]" and ts' = "[inner_track]" and outs = outs]
  from inst track_edge e d build_templates_inner p
  have "in_frame 64 48 (edge_track\<lparr> last_cx := 4, last_cy := 20 \<rparr>)" and "in_frame 64 48 inner_track"
    by simp_all
  with track_edge e d build_templates_inner p show ?thesis by auto
qed

section \<open>Slices that stay inside the axis\<close>

text \<open>
  Arithmetic of one axis of the tracker: with the clipped bounds \<open>x1\<close>, \<open>x2\<close> of the
  search region, a template of width \<open>tw\<close> with \<open>hw = tw div 2\<close>, and a match offset \<open>u\<close>
  that the region admits, the new centre \<open>x1 + u + hw\<close> needs no clamping and differs
  from the old centre \<open>c\<close> by at most \<open>ms\<close>.
\<close>

lemma centre_shift_bound:
  fixes c hw ms tw u w x1 x2 :: int
  assumes "0 \<le> hw" and "2 * hw \<le> tw" and "1 \<le> tw"
    and "0 \<le> x1" and "c - hw - ms \<le> x1" and "x2 \<le> w" and "x2 \<le> c + hw + ms"
    and "0 \<le> u" and "u \<le> x2 - x1 - tw"
  shows "\<bar>max 0 (min (x1 + u + hw) (w - 1)) - c\<bar> \<le> ms"
proof -
  have lo: "0 \<le> x1 + u + hw" using assms by linarith
  have hi: "x1 + u + hw \<le> w - 1" using assms by linarith
  have "max 0 (min (x1 + u + hw) (w - 1)) = x1 + u + hw"
    using lo hi by simp
  moreover have "x1 + u + hw - c \<le> ms" using assms by linarith
  moreover have "- ms \<le> x1 + u + hw - c" using assms by linarith
  ultimately show ?thesis by (simp add: abs_le_iff)
qed

lemma slice_len_inside:
  assumes "0 \<le> lo" and "0 \<le> hi" and "hi \<le> int n"
  shows "int (slice_len lo hi n) = max 0 (hi - lo)"
  using assms by (auto simp: slice_len_def slice_index_def)

lemma slice_start_inside:
  assumes "0 \<le> lo" and "lo \<le> int n"
  shows "int (slice_start lo hi n) = lo"
  using assms by (auto simp: slice_start_def slice_index_def)

lemma slice_len_pos:
  assumes "0 < slice_len lo hi n"
  shows "0 < n"
  using assms by (auto simp: slice_len_def slice_index_def split: if_splits)

lemma track_spot_accept:
  assumes "alive sp"
    and "\<not> (int (nrows (roi_of sp g w h ms)) < templ_h sp \<or> int (ncols (roi_of sp g w h ms)) < templ_w sp)"
    and "matchTemplate cv (roi_of sp g w h ms) (template sp) = Some (score, u, v)"
    and "\<not> score < thr"
  shows "track_spot_on_frame cv sp g w h ms thr =
           Inr (sp\<lparr> last_cx := max 0 (min (max 0 (last_cx sp - templ_w sp div 2 - ms) + u + templ_w sp div 2) (w - 1)),
                     last_cy := max 0 (min (max 0 (last_cy sp - templ_h sp div 2 - ms) + v + templ_h sp div 2) (h - 1)) \<rparr>)"
  using assms by (simp add: track_spot_on_frame_def Let_def search_region_def)

lemma roi_of_shape:
  "nrows (roi_of sp g w h ms) =
     slice_len (max 0 (last_cy sp - templ_h sp div 2 - ms)) (min h (last_cy sp + templ_h sp div 2 + ms)) (nrows g)"
  "ncols (roi_of sp g w h ms) =
     slice_len (max 0 (last_cx sp - templ_w sp div 2 - ms)) (min w (last_cx sp + templ_w sp div 2 + ms)) (ncols g)"
  by (simp_all add: roi_of_def search_region_def Let_def slice2d_def)

text \<open>
  When neither clipped stop bound is negative, the array sliced for the search region has
  the extent of the region clipped to the frame.
\<close>

lemma roi_of_clipped_extent:
  assumes shape: "nrows g = nat h" "ncols g = nat w"
    and size: "0 \<le> w" "0 \<le> h"
    and nowrap: "0 \<le> last_cx sp + templ_w sp div 2 + ms"
                "0 \<le> last_cy sp + templ_h sp div 2 + ms"
  shows "int (ncols (roi_of sp g w h ms)) =
           max 0 (min w (last_cx sp + templ_w sp div 2 + ms)
                  - max 0 (last_cx sp - templ_w sp div 2 - ms))"
    and "int (nrows (roi_of sp g w h ms)) =
           max 0 (min h (last_cy sp + templ_h sp div 2 + ms)
                  - max 0 (last_cy sp - templ_h sp div 2 - ms))"
proof -
  show "int (ncols (roi_of sp g w h ms)) =
           max 0 (min w (last_cx sp + templ_w sp div 2 + ms)
                  - max 0 (last_cx sp - templ_w sp div 2 - ms))"
    unfolding roi_of_shape shape
    by (rule slice_len_inside) (use size nowrap in simp_all)
  show "int (nrows (roi_of sp g w h ms)) =
           max 0 (min h (last_cy sp + templ_h sp div 2 + ms)
                  - max 0 (last_cy sp - templ_h sp div 2 - ms))"
    unfolding roi_of_shape shape
    by (rule slice_len_inside) (use size nowrap in simp_all)
qed

text \<open>
  Hence, when neither clipped stop bound is negative, a search region that clipped to
  the frame is smaller than the template in either dimension makes the step hold.
\<close>

lemma hold_when_clipped_region_small:
  assumes alive: "alive sp"
    and shape: "nrows g = nat h" "ncols g = nat w" and size: "0 \<le> w" "0 \<le> h"
    and templ: "1 \<le> templ_w sp" "1 \<le> templ_h sp"
    and box: "clipped_region sp w h ms = (x1, y1, x2, y2)"
    and nowrap: "0 \<le> x2" "0 \<le> y2"
    and small: "x2 - x1 < templ_w sp \<or> y2 - y1 < templ_h sp"
  shows "track_spot_on_frame cv sp g w h ms th = Inr sp"
proof -
  from box have b: "x1 = max 0 (last_cx sp - templ_w sp div 2 - ms)"
    "y1 = max 0 (last_cy sp - templ_h sp div 2 - ms)"
    "x2 = min w (last_cx sp + templ_w sp div 2 + ms)"
    "y2 = min h (last_cy sp + templ_h sp div 2 + ms)"
    by (simp_all add: clipped_region_def search_region_def Let_def)
  from nowrap have nw: "0 \<le> last_cx sp + templ_w sp div 2 + ms"
    "0 \<le> last_cy sp + templ_h sp div 2 + ms"
    unfolding b by linarith+
  have c: "int (ncols (roi_of sp g w h ms)) = max 0 (x2 - x1)"
    and r: "int (nrows (roi_of sp g w h ms)) = max 0 (y2 - y1)"
    unfolding b by (rule roi_of_clipped_extent [OF shape size nw])+
  from small templ have "int (nrows (roi_of sp g w h ms)) < templ_h sp
         \<or> int (ncols (roi_of sp g w h ms)) < templ_w sp"
    unfolding c r by linarith
  with alive show ?thesis
    by (simp add: track_spot_on_frame_def Let_def)
qed

lemma axis_shift:
  fixes c tw ms w u :: int
  assumes tw: "1 \<le> tw"
    and nowrap: "0 \<le> c + tw div 2 + ms"
    and loc: "0 \<le> u"
      "u \<le> int (slice_len (max 0 (c - tw div 2 - ms)) (min w (c + tw div 2 + ms)) (nat w)) - tw"
  shows "\<bar>max 0 (min (max 0 (c - tw div 2 - ms) + u + tw div 2) (w - 1)) - c\<bar> \<le> ms \<and> 0 \<le> ms"
proof -
  define hw where "hw = tw div 2"
  define x1 where "x1 = max 0 (c - hw - ms)"
  define x2 where "x2 = min w (c + hw + ms)"
  have hw: "0 \<le> hw" "2 * hw \<le> tw" using tw by (simp_all add: hw_def)
  have loc2: "u \<le> int (slice_len x1 x2 (nat w)) - tw"
    using loc(2) by (simp add: x1_def x2_def hw_def)
  from loc(1) loc2 tw have pos: "0 < slice_len x1 x2 (nat w)"
    by linarith
  then have "0 < nat w" by (rule slice_len_pos)
  then have wpos: "0 < w" by simp
  have x1b: "0 \<le> x1" "c - hw - ms \<le> x1" by (simp_all add: x1_def)
  have x2b: "x2 \<le> w" "x2 \<le> c + hw + ms" by (simp_all add: x2_def)
  have x2n: "0 \<le> x2" using nowrap wpos by (simp add: x2_def hw_def)
  have "int (slice_len x1 x2 (nat w)) = max 0 (x2 - x1)"
    by (rule slice_len_inside) (use x1b x2b x2n wpos in simp_all)
  with pos have len: "int (slice_len x1 x2 (nat w)) = x2 - x1" by linarith
  from loc2 len have u: "u \<le> x2 - x1 - tw"
    by linarith
  have "\<bar>max 0 (min (x1 + u + hw) (w - 1)) - c\<bar> \<le> ms"
    using hw tw x1b x2b loc(1) u by (intro centre_shift_bound) simp_all
  moreover have "0 \<le> ms"
    using hw(2) x1b(2) x2b(2) u loc(1) by linarith
  ultimately show ?thesis unfolding x1_def hw_def by (rule conjI)
qed

text \<open>
  When neither stop bound of the search region is negative, the frame has the size the
  capture reports, and the matcher returns an offset inside its result map (as
  \<^verbatim>\<open>cv2.minMaxLoc\<close> does), a tracker step moves the centre by at most \<open>max_shift\<close> in each
  axis, clipped region and final clamp included.
\<close>

lemma displacement_bound:
  assumes alive: "alive sp"
    and shape: "nrows g = nat h" "ncols g = nat w"
    and tw: "1 \<le> templ_w sp" and th: "1 \<le> templ_h sp"
    and nowrap: "0 \<le> last_cx sp + templ_w sp div 2 + ms" "0 \<le> last_cy sp + templ_h sp div 2 + ms"
    and m: "matchTemplate cv (roi_of sp g w h ms) (template sp) = Some (score, u, v)"
    and loc: "0 \<le> u" "u \<le> int (ncols (roi_of sp g w h ms)) - templ_w sp"
             "0 \<le> v" "v \<le> int (nrows (roi_of sp g w h ms)) - templ_h sp"
    and r: "track_spot_on_frame cv sp g w h ms thr = Inr sp'"
  shows "\<bar>last_cx sp' - last_cx sp\<bar> \<le> ms \<and> \<bar>last_cy sp' - last_cy sp\<bar> \<le> ms"
proof -
  have X: "\<bar>max 0 (min (max 0 (last_cx sp - templ_w sp div 2 - ms) + u + templ_w sp div 2) (w - 1)) - last_cx sp\<bar> \<le> ms \<and> 0 \<le> ms"
    using tw nowrap(1) loc(1,2) unfolding roi_of_shape shape by (rule axis_shift)
  have Y: "\<bar>max 0 (min (max 0 (last_cy sp - templ_h sp div 2 - ms) + v + templ_h sp div 2) (h - 1)) - last_cy sp\<bar> \<le> ms"
    using th nowrap(2) loc(3,4) unfolding roi_of_shape shape by (rule axis_shift [THEN conjunct1])
  show ?thesis
  proof (cases "score < thr")
    case True
    with r alive m have "sp' = sp"
      by (auto simp: track_spot_on_frame_def Let_def split: if_splits)
    moreover from X have "0 \<le> ms" by (rule conjunct2)
    ultimately show ?thesis by simp
  next
    case False
    from loc have big: "\<not> (int (nrows (roi_of sp g w h ms)) < templ_h sp \<or> int (ncols (roi_of sp g w h ms)) < templ_w sp)"
      by linarith
    from track_spot_accept [OF alive big m False] r
    have "last_cx sp' = max 0 (min (max 0 (last_cx sp - templ_w sp div 2 - ms) + u + templ_w sp div 2) (w - 1))"
      and "last_cy sp' = max 0 (min (max 0 (last_cy sp - templ_h sp div 2 - ms) + v + templ_h sp div 2) (h - 1))"
      by auto
    with X Y show ?thesis by (simp only:)
  qed
qed

text \<open>
  When neither stop bound of a definition's box is negative, the builder does what the
  description of the box says: the template is the slice of the reference image over the
  clipped box, of the size of that box, and the definition is skipped with a warning
  exactly when the clipped box is empty.
\<close>

lemma build_one_clipped_box:
  assumes shape: "nrows g = nat h" "ncols g = nat w"
    and size: "0 \<le> w" "0 \<le> h"
    and nowrap: "0 \<le> def_x s + (def_radius s + margin)" "0 \<le> def_y s + (def_radius s + margin)"
    and box: "template_box s w h = (x1, y1, x2, y2)"
  shows "build_one g s w h =
           (if x1 < x2 \<and> y1 < y2
            then Inr \<lparr> radius = def_radius s, template = slice2d g y1 y2 x1 x2,
                       templ_w = x2 - x1, templ_h = y2 - y1,
                       origin_cx = def_x s, origin_cy = def_y s,
                       last_cx = def_x s, last_cy = def_y s, alive = True \<rparr>
            else Inl (WarnEmptyTemplate (def_x s) (def_y s)))"
proof -
  from box have b: "x1 = max 0 (def_x s - (def_radius s + margin))"
    "y1 = max 0 (def_y s - (def_radius s + margin))"
    "x2 = min w (def_x s + (def_radius s + margin))"
    "y2 = min h (def_y s + (def_radius s + margin))"
    by (simp_all add: template_box_def Let_def)
  have xb: "0 \<le> x1" "0 \<le> x2" "x2 \<le> int (nat w)" using size nowrap by (simp_all add: b)
  have yb: "0 \<le> y1" "0 \<le> y2" "y2 \<le> int (nat h)" using size nowrap by (simp_all add: b)
  have cw: "int (slice_len x1 x2 (nat w)) = max 0 (x2 - x1)" using xb by (rule slice_len_inside)
  have rh: "int (slice_len y1 y2 (nat h)) = max 0 (y2 - y1)" using yb by (rule slice_len_inside)
  have nc: "int (ncols (slice2d g y1 y2 x1 x2)) = max 0 (x2 - x1)"
    and nr: "int (nrows (slice2d g y1 y2 x1 x2)) = max 0 (y2 - y1)"
    by (simp_all add: slice2d_def shape cw rh)
  have z: "size2d (slice2d g y1 y2 x1 x2) = 0 \<longleftrightarrow> \<not> (x1 < x2 \<and> y1 < y2)"
  proof -
    have "size2d (slice2d g y1 y2 x1 x2) = 0 \<longleftrightarrow>
            int (nrows (slice2d g y1 y2 x1 x2)) = 0 \<or> int (ncols (slice2d g y1 y2 x1 x2)) = 0"
      by (simp add: size2d_def)
    also have "\<dots> \<longleftrightarrow> \<not> (x1 < x2 \<and> y1 < y2)"
      unfolding nc nr by linarith
    finally show ?thesis .
  qed
  show ?thesis
  proof (cases "x1 < x2 \<and> y1 < y2")
    case True
    with nc nr have "int (ncols (slice2d g y1 y2 x1 x2)) = x2 - x1"
      "int (nrows (slice2d g y1 y2 x1 x2)) = y2 - y1" by linarith+
    with True z show ?thesis by (simp add: build_one_def box Let_def)
  next
    case False
    with z show ?thesis by (simp add: build_one_def box Let_def)
  qed
qed

lemma template_pixels:
  assumes "0 \<le> x1" "x1 \<le> int (ncols g)" "0 \<le> y1" "y1 \<le> int (nrows g)"
  shows "px (slice2d g y1 y2 x1 x2) i j = px g (nat y1 + i) (nat x1 + j)"
proof -
  from assms have "min (nat x1) (ncols g) = nat x1" "min (nat y1) (nrows g) = nat y1"
    by linarith+
  with assms show ?thesis
    by (simp add: slice2d_def slice_start_def slice_index_def)
qed

lemma template_28:
  assumes "nrows g = 1080" "ncols g = 1920"
  shows "build_one g \<lparr> def_x = 100, def_y = 100, def_radius = 10 \<rparr> 1920 1080 =
           Inr \<lparr> radius = 10, template = slice2d g 86 114 86 114, templ_w = 28, templ_h = 28,
                 origin_cx = 100, origin_cy = 100, last_cx = 100, last_cy = 100, alive = True \<rparr>"
  using assms
  by (simp add: build_one_def template_box_def margin_def Let_def slice2d_def slice_len_def
      slice_index_def size2d_def)

text \<open>
  A template that no border clips is centred on its spot, and \<open>templ_w div 2\<close> is the
  offset of the centre inside it. When a matcher that accepts reports the position at
  which the template was cut, the step gives the track back unchanged.
\<close>

lemma unclipped_template_keeps_centre:
  assumes b: "build_one g s w h = Inr t"
    and shape: "nrows g = nat h" "ncols g = nat w"
    and hs: "hs = def_radius s + margin" "0 < hs"
    and unclipped: "hs \<le> def_x s" "def_x s + hs \<le> w" "hs \<le> def_y s" "def_y s + hs \<le> h"
    and best: "\<And>score u v.
        matchTemplate cv (roi_of t g w h ms) (template t) = Some (score, u, v) \<Longrightarrow>
          score < thr \<or>
          (u = (def_x s - hs) - max 0 (def_x s - hs - ms) \<and>
           v = (def_y s - hs) - max 0 (def_y s - hs - ms))"
  shows "track_spot_on_frame cv t g w h ms thr = Inr t \<or>
         track_spot_on_frame cv t g w h ms thr = Inl CvError"
proof -
  have box: "template_box s w h = (def_x s - hs, def_y s - hs, def_x s + hs, def_y s + hs)"
    using hs unclipped by (simp add: template_box_def Let_def)
  have "build_one g s w h =
           (if def_x s - hs < def_x s + hs \<and> def_y s - hs < def_y s + hs
            then Inr \<lparr> radius = def_radius s,
                       template = slice2d g (def_y s - hs) (def_y s + hs) (def_x s - hs) (def_x s + hs),
                       templ_w = def_x s + hs - (def_x s - hs), templ_h = def_y s + hs - (def_y s - hs),
                       origin_cx = def_x s, origin_cy = def_y s,
                       last_cx = def_x s, last_cy = def_y s, alive = True \<rparr>
            else Inl (WarnEmptyTemplate (def_x s) (def_y s)))"
    by (rule build_one_clipped_box [OF shape _ _ _ _ box]) (use hs unclipped in simp_all)
  with b hs have f: "templ_w t = 2 * hs" "templ_h t = 2 * hs" "last_cx t = def_x s"
    "last_cy t = def_y s" "alive t"
    by auto
  have half: "templ_w t div 2 = hs" "templ_h t div 2 = hs" by (simp_all add: f)
  show ?thesis
  proof (cases "int (nrows (roi_of t g w h ms)) < templ_h t \<or> int (ncols (roi_of t g w h ms)) < templ_w t")
    case True
    then show ?thesis using f by (simp add: track_spot_on_frame_def Let_def)
  next
    case big: False
    show ?thesis
    proof (cases "matchTemplate cv (roi_of t g w h ms) (template t)")
      case None
      with big f show ?thesis by (simp add: track_spot_on_frame_def Let_def)
    next
      case (Some r)
      obtain score u v where r: "r = (score, u, v)" by (cases r) auto
      show ?thesis
      proof (cases "score < thr")
        case True
        with Some r big f show ?thesis by (simp add: track_spot_on_frame_def Let_def)
      next
        case False
        with best [OF Some [unfolded r]] have
          uv: "u = (def_x s - hs) - max 0 (def_x s - hs - ms)"
              "v = (def_y s - hs) - max 0 (def_y s - hs - ms)" by simp_all
        have cx: "max 0 (min (max 0 (last_cx t - templ_w t div 2 - ms) + u + templ_w t div 2) (w - 1)) = last_cx t"
          unfolding half f uv using hs unclipped by simp
        have cy: "max 0 (min (max 0 (last_cy t - templ_h t div 2 - ms) + v + templ_h t div 2) (h - 1)) = last_cy t"
          unfolding half f uv using hs unclipped by simp
        from track_spot_accept [OF f(5) big Some [unfolded r] False]
        show ?thesis unfolding cx cy by simp
      qed
    qed
  qed
qed

section \<open>Boxes and search regions that leave the frame on the left\<close>


lemma roi_outside: "roi_of outside_track gray_texture 64 48 6 =
    \<lparr> nrows = 40, ncols = 59, px = (\<lambda>i j. px gray_texture i j) \<rparr>"
  by (simp add: roi_eval outside_track_def outside_spot_def)

lemma templ_outside: "template outside_track =
    \<lparr> nrows = 28, ncols = 2, px = (\<lambda>i j. px gray_texture (6 + i) j) \<rparr>"
  by (simp add: roi_eval outside_track_def outside_spot_def)

lemma match_outside:
  "exact_match \<lparr> nrows = 40, ncols = 59, px = (\<lambda>i j. px gray_texture i j) \<rparr>
               \<lparr> nrows = 28, ncols = 2, px = (\<lambda>i j. px gray_texture (6 + i) j) \<rparr>
     = Some (1, 0, 6)"
  by (simp add: match_eval)

lemma track_outside:
  "track_spot_on_frame test_cv outside_track gray_texture 64 48 6 (1 / 2)
     = Inr (outside_track\<lparr> last_cx := 1, last_cy := 20 \<rparr>)"
proof -
  have m: "matchTemplate test_cv (roi_of outside_track gray_texture 64 48 6) (template outside_track)
            = Some (1, 0, 6)"
    by (simp add: test_cv_def roi_outside templ_outside match_outside)
  show ?thesis
    by (simp add: track_spot_on_frame_def m Let_def)
       (simp add: roi_outside fields_outside search_region_def)
qed

text \<open>
  The two moves below do not depend on which position the matcher prefers: at
  \<open>edge_track\<close> every accepted match with an offset \<open>u \<ge> 0\<close> puts the centre at column 4
  or beyond, away from the origin column 2, and at \<open>outside_track\<close> every such match
  moves the centre by 13 columns or more.
\<close>

lemma accepted_match_leaves_origin:
  assumes "matchTemplate cv (roi_of edge_track gray_texture 64 48 6) (template edge_track)
             = Some (score, u, v)"
    and "\<not> score < thr" and "0 \<le> u"
  shows "\<exists>sp'. track_spot_on_frame cv edge_track gray_texture 64 48 6 thr = Inr sp'
               \<and> 4 \<le> last_cx sp' \<and> origin_cx sp' = 2"
proof -
  have big: "\<not> (int (nrows (roi_of edge_track gray_texture 64 48 6)) < templ_h edge_track
               \<or> int (ncols (roi_of edge_track gray_texture 64 48 6)) < templ_w edge_track)"
    by (simp add: roi_edge fields_edge)
  from track_spot_accept [OF fields_edge(7) big assms(1,2)] assms(3) show ?thesis
    by (simp add: fields_edge)
qed

lemma accepted_match_jumps:
  assumes "matchTemplate cv (roi_of outside_track gray_texture 64 48 6) (template outside_track)
             = Some (score, u, v)"
    and "\<not> score < thr" and "0 \<le> u"
  shows "\<exists>sp'. track_spot_on_frame cv outside_track gray_texture 64 48 6 thr = Inr sp'
               \<and> 13 \<le> last_cx sp' - last_cx outside_track"
proof -
  have big: "\<not> (int (nrows (roi_of outside_track gray_texture 64 48 6)) < templ_h outside_track
               \<or> int (ncols (roi_of outside_track gray_texture 64 48 6)) < templ_w outside_track)"
    by (simp add: roi_outside fields_outside)
  from track_spot_accept [OF fields_outside(5) big assms(1,2)] assms(3) show ?thesis
    by (simp add: fields_outside)
qed

subsection \<open>A box wholly left of the frame (C5)\<close>

text \<open>
  C5 at a definition whose box lies wholly to the left of the frame: \<open>x = -10\<close>,
  \<open>radius = 3\<close> in a frame 64 wide. The clipped bounds are \<open>x1 = 0\<close> and \<open>x2 = -3\<close>, an
  empty box, yet the slice \<^verbatim>\<open>[0:-3]\<close> counts its stop from the end of the axis: the
  template has 61 columns and the spot is kept, without a warning.
\<close>

theorem wrapped_template_survives:
  "template_box wrapped_spot 64 48 = (0, 13, - 3, 27)
   \<and> build_one gray_texture wrapped_spot 64 48 =
       Inr \<lparr> radius = 3, template = slice2d gray_texture 13 27 0 (- 3),
             templ_w = 61, templ_h = 14, origin_cx = - 10, origin_cy = 20,
             last_cx = - 10, last_cy = 20, alive = True \<rparr>
   \<and> ncols (slice2d gray_texture 13 27 0 (- 3)) = 61"
  by (simp add: build_eval wrapped_spot_def)

subsection \<open>A clipped search region that is empty, yet no hold (C3)\<close>

text \<open>
  C3 at a track whose search region lies wholly to the left of the frame: \<open>x = -12\<close>,
  \<open>radius = 10\<close>, \<open>max_shift = 6\<close>. Clipped to the frame the region runs from column
  \<open>0\<close> to column \<open>-5\<close>: it is empty, smaller than the template of 2 columns, and C3 has
  the step hold. The slice \<^verbatim>\<open>[0:-5]\<close> that the tracker takes is 59 columns wide, the
  too-small test does not fire, the match is accepted and the centre is overwritten.
\<close>

theorem empty_clipped_region_not_held:
  "alive outside_track
   \<and> clipped_region outside_track 64 48 6 = (0, 0, - 5, 40)
   \<and> templ_w outside_track = 2
   \<and> (- 5 :: int) - 0 < 2
   \<and> last_cx outside_track = - 12
   \<and> track_spot_on_frame test_cv outside_track gray_texture 64 48 6 (1 / 2)
       = Inr (outside_track\<lparr> last_cx := 1, last_cy := 20 \<rparr>)
   \<and> last_cx (outside_track\<lparr> last_cx := 1, last_cy := 20 \<rparr>) \<noteq> last_cx outside_track"
  by (simp add: fields_outside track_outside clipped_region_def search_region_def)

subsection \<open>A search region wholly left of the frame (C9)\<close>

text \<open>
  C9 at a track whose search region lies wholly to the left of the frame: \<open>x = -12\<close>,
  \<open>radius = 10\<close>, \<open>max_shift = 6\<close>. The clipped bounds of the region are \<open>0\<close> and
  \<open>-5\<close>; the slice \<^verbatim>\<open>[0:-5]\<close> is 59 columns wide, the template is found in it, the
  match is accepted, and the centre moves from \<open>-12\<close> to \<open>1\<close>: 13 pixels in one frame.
\<close>

theorem wrapped_search_region_jump:
  "build_one gray_texture outside_spot 64 48 = Inr outside_track
   \<and> last_cx outside_track = - 12
   \<and> search_region outside_track 6 = (- 19, 0, - 5, 40)
   \<and> ncols (roi_of outside_track gray_texture 64 48 6) = 59
   \<and> track_spot_on_frame test_cv outside_track gray_texture 64 48 6 (1 / 2)
       = Inr (outside_track\<lparr> last_cx := 1, last_cy := 20 \<rparr>)
   \<and> \<not> \<bar>1 - (- 12)\<bar> \<le> (6 :: int)"
  by (simp add: build_outside fields_outside track_outside roi_outside search_region_def)

subsection \<open>A template clipped at the border, on an unchanged frame (C1)\<close>

text \<open>
  C1 at a spot whose box is clipped at the left border: \<open>x = 2\<close>, \<open>radius = 3\<close>. The
  template is the columns 0 to 8 of the reference frame. On a frame identical to the
  reference frame the template is found where it was cut, at column 0, and the tracker
  sets the centre to \<open>0 + templ_w div 2 = 4\<close>: the centre leaves the origin \<open>(2, 20)\<close> for
  \<open>(4, 20)\<close> although nothing moved.
\<close>

theorem clipped_template_moves_centre:
  "build_spot_templates test_cv texture [edge_spot] 64 48 = ([], [edge_track])
   \<and> origin_cx edge_track = 2 \<and> origin_cy edge_track = 20
   \<and> last_cx edge_track = 2 \<and> last_cy edge_track = 20
   \<and> track_spot_on_frame test_cv edge_track (preprocess test_cv texture) 64 48 6 (1 / 2)
       = Inr (edge_track\<lparr> last_cx := 4, last_cy := 20 \<rparr>)
   \<and> last_cx (edge_track\<lparr> last_cx := 4, last_cy := 20 \<rparr>) \<noteq> origin_cx edge_track"
  by (simp add: build_spot_templates_def preprocess_texture build_edge fields_edge track_edge)

section \<open>Darkening (C8)\<close>














lemma fields_args_more:
  "inpaint_radius test_args = 3" "arg_inpaint_method test_args = Telea"
  by (simp_all add: test_args_def)














end
